theory Spec2Isabelle
  imports Complex_Main
begin

section \<open>Numbers and errors\<close>

text \<open>
  The program computes with Python and numpy floats. Finite values are modelled as
  reals (rounding is not modelled). A pandas or numpy value that may be missing is a
  \<open>real option\<close>, where \<open>None\<close> stands for NaN. The result of a numpy division, which
  may also be infinite, is an \<open>npfloat\<close>. Exceptions are values of \<open>py_error\<close>.
\<close>

datatype py_error = IndexError | KeyError | ZeroDivisionError

datatype npfloat = Fin real | PInf | NInf | NaN

text \<open>numpy division: a zero divisor gives an infinity or NaN, never an exception.\<close>

fun np_div :: "real option \<Rightarrow> real option \<Rightarrow> npfloat" where
  "np_div (Some a) (Some b) =
     (if b = 0 then (if a = 0 then NaN else if 0 < a then PInf else NInf)
      else Fin (a / b))"
| "np_div _ _ = NaN"

text \<open>Comparisons of a float with a finite bound: every comparison with NaN is false.\<close>

fun np_le :: "npfloat \<Rightarrow> real \<Rightarrow> bool" where
  "np_le (Fin a) c = (a \<le> c)"
| "np_le NInf c = True"
| "np_le PInf c = False"
| "np_le NaN c = False"

fun np_lt :: "npfloat \<Rightarrow> real \<Rightarrow> bool" where
  "np_lt (Fin a) c = (a < c)"
| "np_lt NInf c = True"
| "np_lt PInf c = False"
| "np_lt NaN c = False"

fun np_gt :: "npfloat \<Rightarrow> real \<Rightarrow> bool" where
  "np_gt (Fin a) c = (c < a)"
| "np_gt PInf c = True"
| "np_gt NInf c = False"
| "np_gt NaN c = False"

text \<open>\<open>np.maximum\<close> of two floats and \<open>np.max\<close> of an array: NaN propagates.\<close>

fun np_maximum :: "npfloat \<Rightarrow> npfloat \<Rightarrow> npfloat" where
  "np_maximum NaN _ = NaN"
| "np_maximum _ NaN = NaN"
| "np_maximum PInf _ = PInf"
| "np_maximum _ PInf = PInf"
| "np_maximum NInf y = y"
| "np_maximum x NInf = x"
| "np_maximum (Fin a) (Fin b) = Fin (max a b)"

fun np_max :: "npfloat list \<Rightarrow> npfloat" where
  "np_max [] = NaN"
| "np_max (x # xs) = foldl np_maximum x xs"

text \<open>Arithmetic and comparison on values that may be NaN.\<close>

fun nan_sub :: "real option \<Rightarrow> real option \<Rightarrow> real option" where
  "nan_sub (Some a) (Some b) = Some (a - b)"
| "nan_sub _ _ = None"

fun nan_add :: "real option \<Rightarrow> real option \<Rightarrow> real option" where
  "nan_add (Some a) (Some b) = Some (a + b)"
| "nan_add _ _ = None"

fun nan_lt :: "real option \<Rightarrow> real option \<Rightarrow> bool" where
  "nan_lt (Some a) (Some b) = (a < b)"
| "nan_lt _ _ = False"

section \<open>Risk management\<close>

subsection \<open>Position sizing\<close>

text \<open>The table \<open>self.pip_values\<close> of \<open>RiskManagement.__init__\<close>.\<close>

definition pip_values :: "string \<rightharpoonup> real" where
  "pip_values = [''XAUUSD'' \<mapsto> 0.01, ''NASDAQ'' \<mapsto> 1.0]"

definition default_balance :: real where
  "default_balance = 10000"

definition default_risk_percent :: real where
  "default_risk_percent = 0.01"

record position =
  position_size :: real
  risk_amount :: real
  stop_loss_distance :: real
  pip_value :: real

text \<open>
  \<open>calculate_position_size\<close>: the arguments are Python floats (\<open>None\<close> selects the
  default of \<open>balance\<close> and \<open>risk_percent\<close>). The lookup \<open>self.pip_values[asset]\<close> raises
  KeyError on an unknown asset, and the float division raises ZeroDivisionError when the
  stop distance times the pip value is zero.
\<close>

definition calculate_position_size ::
  "string \<Rightarrow> real \<Rightarrow> real \<Rightarrow> real option \<Rightarrow> real option \<Rightarrow> py_error + position" where
  "calculate_position_size asset entry_price stop_loss balance risk_percent =
    (let balance = (case balance of None \<Rightarrow> default_balance | Some b \<Rightarrow> b);
         risk_percent = (case risk_percent of None \<Rightarrow> default_risk_percent | Some r \<Rightarrow> r);
         risk_percent = min risk_percent 0.02;
         distance = \<bar>entry_price - stop_loss\<bar>
     in case pip_values asset of
          None \<Rightarrow> Inl KeyError
        | Some pip \<Rightarrow>
            (let amount = balance * risk_percent
             in if distance * pip = 0 then Inl ZeroDivisionError
                else Inr \<lparr> position_size = amount / (distance * pip),
                           risk_amount = amount,
                           stop_loss_distance = distance,
                           pip_value = pip \<rparr>))"

subsection \<open>Trailing stop\<close>

text \<open>
  \<open>calculate_trailing_stop\<close>: a function of its four arguments only; the direction is a
  string, and every direction other than \<open>long\<close> takes the short branch.
\<close>

definition calculate_trailing_stop :: "real \<Rightarrow> real \<Rightarrow> string \<Rightarrow> real \<Rightarrow> real" where
  "calculate_trailing_stop entry_price current_price direction atr =
    (if direction = ''long'' then
       (let profit = current_price - entry_price
        in if profit \<ge> atr then max entry_price (current_price - atr)
           else entry_price - (1.5 * atr))
     else
       (let profit = entry_price - current_price
        in if profit \<ge> atr then min entry_price (current_price + atr)
           else entry_price + (1.5 * atr)))"

subsection \<open>Portfolio metrics\<close>

text \<open>
  A signal is a dictionary; the keys that \<open>calculate_portfolio_metrics\<close> reads are the
  fields of the record, and \<open>None\<close> says that the key is absent.
\<close>

record signal =
  sig_result :: "string option"
  sig_risk_amount :: "real option"
  sig_risk_reward :: "real option"
  sig_entry_price :: "real option"
  sig_stop_loss :: "real option"
  sig_take_profit :: "real option"

record portfolio_metrics =
  win_rate :: real
  avg_risk_reward :: real
  max_drawdown :: npfloat
  total_trades :: nat

text \<open>
  The loop that collects the reward/risk ratios: \<open>signal['entry_price']\<close> raises KeyError
  when a signal has a take profit and a stop loss but no entry price.
\<close>

fun risk_rewards :: "signal list \<Rightarrow> py_error + real list" where
  "risk_rewards [] = Inr []"
| "risk_rewards (s # ss) =
     (case (sig_take_profit s, sig_stop_loss s) of
        (Some tp, Some sl) \<Rightarrow>
          (case sig_entry_price s of
             None \<Rightarrow> Inl KeyError
           | Some ep \<Rightarrow>
               (let risk = \<bar>ep - sl\<bar>; reward = \<bar>tp - ep\<bar>
                in case risk_rewards ss of
                     Inl e \<Rightarrow> Inl e
                   | Inr rs \<Rightarrow> Inr (if risk > 0 then (reward / risk) # rs else rs)))
      | _ \<Rightarrow> risk_rewards ss)"

text \<open>The loop that replays the signals in order, from the equity reached so far.\<close>

fun replay_from :: "real \<Rightarrow> signal list \<Rightarrow> real list" where
  "replay_from current_equity [] = []"
| "replay_from current_equity (s # ss) =
     (case (sig_result s, sig_risk_amount s) of
        (Some res, Some amount) \<Rightarrow>
          (let equity =
                 (if res = ''win''
                  then current_equity
                         + amount * (case sig_risk_reward s of None \<Rightarrow> 1 | Some rr \<Rightarrow> rr)
                  else current_equity - amount)
           in equity # replay_from equity ss)
      | _ \<Rightarrow> replay_from current_equity ss)"

text \<open>
  The list \<open>equity_curve\<close> that \<open>calculate_portfolio_metrics\<close> builds: the replay starts
  from \<open>self.default_balance\<close>.
\<close>

definition equity_curve :: "signal list \<Rightarrow> real list" where
  "equity_curve signals = replay_from default_balance signals"

text \<open>\<open>np.maximum.accumulate\<close>: the running maximum of an array.\<close>

fun accumulate_from :: "real \<Rightarrow> real list \<Rightarrow> real list" where
  "accumulate_from m [] = []"
| "accumulate_from m (x # xs) = max m x # accumulate_from (max m x) xs"

fun maximum_accumulate :: "real list \<Rightarrow> real list" where
  "maximum_accumulate [] = []"
| "maximum_accumulate (x # xs) = x # accumulate_from x xs"

definition drawdown :: "real list \<Rightarrow> npfloat list" where
  "drawdown curve =
     map (\<lambda>(peak, equity). np_div (Some (peak - equity)) (Some peak))
         (zip (maximum_accumulate curve) curve)"

definition calculate_portfolio_metrics :: "signal list \<Rightarrow> py_error + portfolio_metrics" where
  "calculate_portfolio_metrics signals =
    (if signals = [] then
       Inr \<lparr> win_rate = 0, avg_risk_reward = 0, max_drawdown = Fin 0, total_trades = 0 \<rparr>
     else
       (let winning_trades = length (filter (\<lambda>s. sig_result s = Some ''win'') signals);
            trades = length signals;
            rate = (if trades > 0 then real winning_trades / real trades else 0)
        in case risk_rewards signals of
             Inl e \<Rightarrow> Inl e
           | Inr rs \<Rightarrow>
               (let avg = (if rs \<noteq> [] then sum_list rs / real (length rs) else 0);
                    curve = equity_curve signals;
                    mdd = (if curve \<noteq> [] then np_max (drawdown curve) else Fin 0)
                in Inr \<lparr> win_rate = rate, avg_risk_reward = avg, max_drawdown = mdd,
                          total_trades = trades \<rparr>)))"

section \<open>Market series\<close>

text \<open>
  A timestamp is (year, month, day, microsecond of the day), ordered lexicographically.
\<close>

type_synonym datetime = "int \<times> int \<times> int \<times> int"

fun dt_le :: "datetime \<Rightarrow> datetime \<Rightarrow> bool" where
  "dt_le (y1, m1, d1, t1) (y2, m2, d2, t2) =
     (y1 < y2 \<or> (y1 = y2 \<and> (m1 < m2 \<or> (m1 = m2 \<and> (d1 < d2 \<or> (d1 = d2 \<and> t1 \<le> t2))))))"

text \<open>
  One row of the data frame. The frame is indexed by timestamp and sorted by it when
  \<open>ICTAnalysis\<close> is constructed; a series is the list of its rows in that order.
\<close>

record bar =
  index :: datetime
  open' :: real
  high :: real
  low :: real
  close :: real
  volume :: int

subsection \<open>pandas operations on a column\<close>

definition tail :: "nat \<Rightarrow> 'a list \<Rightarrow> 'a list" where
  "tail n xs = drop (length xs - n) xs"

text \<open>\<open>xs.iloc[-a:-b]\<close>: both ends are clipped to the column.\<close>

definition iloc_slice_from_end :: "nat \<Rightarrow> nat \<Rightarrow> 'a list \<Rightarrow> 'a list" where
  "iloc_slice_from_end a b xs = drop (length xs - a) (take (length xs - b) xs)"

text \<open>\<open>xs.iloc[-k]\<close> for \<open>k \<ge> 1\<close>: IndexError when the column has fewer than \<open>k\<close> rows.\<close>

definition iloc_from_end :: "nat \<Rightarrow> 'a list \<Rightarrow> py_error + 'a" where
  "iloc_from_end k xs = (if length xs < k then Inl IndexError else Inr (xs ! (length xs - k)))"

text \<open>\<open>mean\<close>, \<open>max\<close> and \<open>min\<close> of a column without NaN: NaN on the empty column.\<close>

definition mean :: "real list \<Rightarrow> real option" where
  "mean xs = (if xs = [] then None else Some (sum_list xs / real (length xs)))"

fun pd_max :: "real list \<Rightarrow> real option" where
  "pd_max [] = None"
| "pd_max (x # xs) = Some (fold max xs x)"

fun pd_min :: "real list \<Rightarrow> real option" where
  "pd_min [] = None"
| "pd_min (x # xs) = Some (fold min xs x)"

text \<open>The same aggregates of a column that may hold NaN: NaN entries are skipped.\<close>

definition dropna :: "real option list \<Rightarrow> real list" where
  "dropna ys = List.map_filter (\<lambda>y. y) ys"

text \<open>
  \<open>xs.rolling(window=w).agg()\<close> for \<open>w \<ge> 1\<close> on a column without NaN: row \<open>i\<close> holds the
  aggregate of the \<open>w\<close> rows ending at \<open>i\<close>, and NaN while fewer than \<open>w\<close> rows are there.
\<close>

definition rolling :: "nat \<Rightarrow> (real list \<Rightarrow> real option) \<Rightarrow> real list \<Rightarrow> real option list" where
  "rolling w agg xs =
     map (\<lambda>i. if w \<le> i + 1 then agg (take w (drop (i + 1 - w) xs)) else None)
         [0..<length xs]"

section \<open>Indicators\<close>

text \<open>
  The true range column of \<open>calculate_atr\<close>: \<open>close.shift(1)\<close> is NaN in the first row, and
  the row-wise \<open>max(axis=1)\<close> skips NaN, so the first row holds \<open>high - low\<close>.
\<close>

fun tr_rows :: "real \<Rightarrow> bar list \<Rightarrow> real list" where
  "tr_rows prev_close [] = []"
| "tr_rows prev_close (b # bs) =
     max (high b - low b) (max \<bar>high b - prev_close\<bar> \<bar>low b - prev_close\<bar>)
       # tr_rows (close b) bs"

fun true_range :: "bar list \<Rightarrow> real list" where
  "true_range [] = []"
| "true_range (b # bs) = (high b - low b) # tr_rows (close b) bs"

definition atr_period :: nat where
  "atr_period = 20"

text \<open>
  \<open>calculate_atr\<close> (the same method in \<open>EntrySystems\<close> and \<open>RiskManagement\<close>):
  \<open>atr.iloc[-1]\<close> raises IndexError on the empty frame.
\<close>

definition calculate_atr :: "bar list \<Rightarrow> py_error + real option" where
  "calculate_atr data = iloc_from_end 1 (rolling atr_period mean (true_range data))"

text \<open>
  \<open>calculate_sma_slope\<close>: the rolling mean has one row per bar, so \<open>len(sma) < 2\<close> is a
  test on the number of bars. The division is a numpy division.
\<close>

definition calculate_sma_slope :: "bar list \<Rightarrow> nat \<Rightarrow> npfloat" where
  "calculate_sma_slope data period =
     (let sma = rolling period mean (map close data)
      in if length sma < 2 then Fin 0
         else np_div (nan_sub (sma ! (length sma - 1)) (sma ! (length sma - 2)))
                     (sma ! (length sma - 2)))"

section \<open>Structure analysis\<close>

record quarterly_levels =
  q1_high :: real
  q1_low :: real
  q2_high :: real
  q2_low :: real
  q3_high :: real
  q3_low :: real
  q4_high :: real
  q4_low :: real

text \<open>Label slicing of the sorted frame, \<open>data[start:end]\<close>: both ends belong to it.\<close>

definition between :: "datetime \<Rightarrow> datetime \<Rightarrow> bar list \<Rightarrow> bar list" where
  "between start finish data =
     filter (\<lambda>b. dt_le start (index b) \<and> dt_le (index b) finish) data"

definition level_high :: "bar list \<Rightarrow> real" where
  "level_high quarter_data = (case pd_max (map high quarter_data) of None \<Rightarrow> 0 | Some m \<Rightarrow> m)"

definition level_low :: "bar list \<Rightarrow> real" where
  "level_low quarter_data = (case pd_min (map low quarter_data) of None \<Rightarrow> 0 | Some m \<Rightarrow> m)"

text \<open>
  \<open>get_quarterly_levels\<close>: the year comes from the wall clock (\<open>datetime.now().year\<close>) and
  is an argument here. A quarter without bars has the levels 0.
\<close>

definition get_quarterly_levels :: "int \<Rightarrow> bar list \<Rightarrow> quarterly_levels" where
  "get_quarterly_levels current_year data =
    (let yearly_data = between (current_year, 1, 1, 0) (current_year, 12, 31, 0) data;
         q1 = between (current_year, 1, 1, 0) (current_year, 3, 31, 0) yearly_data;
         q2 = between (current_year, 4, 1, 0) (current_year, 6, 30, 0) yearly_data;
         q3 = between (current_year, 7, 1, 0) (current_year, 9, 30, 0) yearly_data;
         q4 = between (current_year, 10, 1, 0) (current_year, 12, 31, 0) yearly_data
     in \<lparr> q1_high = level_high q1, q1_low = level_low q1,
          q2_high = level_high q2, q2_low = level_low q2,
          q3_high = level_high q3, q3_low = level_low q3,
          q4_high = level_high q4, q4_low = level_low q4 \<rparr>)"

text \<open>\<open>determine_bias\<close>: \<open>close.iloc[-1]\<close> raises IndexError on the empty frame.\<close>

definition determine_bias :: "int \<Rightarrow> bar list \<Rightarrow> py_error + string" where
  "determine_bias current_year data =
    (let levels = get_quarterly_levels current_year data
     in case iloc_from_end 1 (map close data) of
          Inl e \<Rightarrow> Inl e
        | Inr current_price \<Rightarrow>
            (let sma_slope = calculate_sma_slope data 20
             in if current_price > q2_high levels \<and> np_gt sma_slope 0 then Inr ''bullish''
                else if current_price < q3_low levels \<and> np_lt sma_slope 0 then Inr ''bearish''
                else Inr ''neutral''))"

record cluster =
  cl_price :: real
  cl_count :: nat
  cl_timestamp :: datetime

record pd_arrays =
  premium :: "real option"
  equilibrium :: "real option"
  discount :: "real option"

record liquidity =
  highs :: "cluster list"
  lows :: "cluster list"
  pd_levels :: pd_arrays

text \<open>
  The test of the inner loop of \<open>find_liquidity_pools\<close>,
  \<open>abs(price - price1) / price1 <= threshold\<close>, a numpy division and comparison.
\<close>

definition within_tolerance :: "real \<Rightarrow> real \<Rightarrow> real \<Rightarrow> bool" where
  "within_tolerance threshold price1 price =
     np_le (np_div (Some \<bar>price - price1\<bar>) (Some price1)) threshold"

text \<open>The inner loop: the bar itself and the later bars of the window that pass the test.\<close>

definition cluster_count :: "real \<Rightarrow> real \<Rightarrow> real list \<Rightarrow> nat" where
  "cluster_count threshold price1 later =
     1 + length (filter (within_tolerance threshold price1) later)"

text \<open>
  The outer loop, \<open>for i in range(len(recent_data) - 2)\<close>, over the rows (timestamp, price):
  it visits every row that has at least two later rows.
\<close>

fun scan_clusters :: "real \<Rightarrow> (datetime \<times> real) list \<Rightarrow> cluster list" where
  "scan_clusters threshold (r # r2 # r3 # rest) =
     (let n = cluster_count threshold (snd r) (map snd (r2 # r3 # rest))
      in (if n \<ge> 3 then [\<lparr> cl_price = snd r, cl_count = n, cl_timestamp = fst r \<rparr>] else [])
           @ scan_clusters threshold (r2 # r3 # rest))"
| "scan_clusters threshold rows = []"

definition find_liquidity_pools :: "bar list \<Rightarrow> nat \<Rightarrow> real \<Rightarrow> liquidity" where
  "find_liquidity_pools data lookback threshold =
    (let recent_data = tail lookback data;
         high_max = pd_max (map high recent_data);
         low_min = pd_min (map low recent_data);
         price_range = nan_sub high_max low_min;
         premium_level = nan_sub high_max (map_option (\<lambda>r. r * 0.25) price_range);
         discount_level = nan_add low_min (map_option (\<lambda>r. r * 0.25) price_range)
     in \<lparr> highs = scan_clusters threshold (map (\<lambda>b. (index b, high b)) recent_data),
          lows = scan_clusters threshold (map (\<lambda>b. (index b, low b)) recent_data),
          pd_levels = \<lparr> premium = premium_level,
                        equilibrium = (case (premium_level, discount_level) of
                                         (Some p, Some d) \<Rightarrow> Some ((p + d) / 2)
                                       | _ \<Rightarrow> None),
                        discount = discount_level \<rparr> \<rparr>)"

section \<open>Entry systems\<close>

text \<open>
  An \<open>EntrySystems\<close> object holds its data frame and an \<open>ICTAnalysis\<close> object, which is
  represented by the frame it holds.
\<close>

record entry_systems =
  data :: "bar list"
  ict_analysis :: "bar list"

record candidate =
  system :: string
  direction :: string
  entry_price :: real
  stop_loss :: "real option"
  take_profit :: real
  invalidation_point :: real
  timestamp :: datetime

definition is_volatile :: "entry_systems \<Rightarrow> py_error + bool" where
  "is_volatile es =
    (case calculate_atr (data es) of
       Inl e \<Rightarrow> Inl e
     | Inr current_atr \<Rightarrow>
         (let avg_atr = map (\<lambda>(h, l). nan_sub h l)
                          (zip (rolling atr_period pd_max (map high (data es)))
                               (rolling atr_period pd_min (map low (data es))))
          in Inr (nan_lt (mean (dropna avg_atr)) current_atr)))"

text \<open>
  \<open>find_nearest_liquidity_pool\<close>: a NaN level fails the comparison and is left out; the
  default applies when no level is left.
\<close>

definition find_nearest_liquidity_pool :: "entry_systems \<Rightarrow> real \<Rightarrow> string \<Rightarrow> real" where
  "find_nearest_liquidity_pool es price dir =
    (let liquidity = find_liquidity_pools (ict_analysis es) 20 0.005
     in if dir = ''up'' then
          (let levels = map (\<lambda>pool. Some (cl_price pool)) (highs liquidity)
                          @ [premium (pd_levels liquidity)]
           in case pd_min (dropna (filter (\<lambda>level. nan_lt (Some price) level) levels)) of
                None \<Rightarrow> price * 1.02
              | Some m \<Rightarrow> m)
        else
          (let levels = map (\<lambda>pool. Some (cl_price pool)) (lows liquidity)
                          @ [discount (pd_levels liquidity)]
           in case pd_max (dropna (filter (\<lambda>level. nan_lt level (Some price)) levels)) of
                None \<Rightarrow> price * 0.98
              | Some m \<Rightarrow> m))"

text \<open>
  \<open>turtle_soup\<close>: \<open>calculate_atr\<close> raises on the empty frame, and \<open>iloc[-3]\<close> raises when
  the window has fewer than three bars. A comparison with NaN (the minimum of an empty
  slice, an ATR that is not there yet) is false.
\<close>

definition turtle_soup :: "entry_systems \<Rightarrow> py_error + candidate option" where
  "turtle_soup es =
    (let recent_data = tail 22 (data es);
         avg_volume = mean (map (\<lambda>b. real_of_int (volume b)) recent_data)
     in case calculate_atr (data es) of
          Inl e \<Rightarrow> Inl e
        | Inr atr \<Rightarrow>
            (case (iloc_from_end 3 recent_data, iloc_from_end 1 recent_data) of
               (Inr b3, Inr b1) \<Rightarrow>
                 if nan_lt (Some (low b3))
                           (pd_min (iloc_slice_from_end 23 3 (map low recent_data)))
                    \<and> close b1 > open' b1
                    \<and> nan_lt (map_option (\<lambda>v. 2 * v) avg_volume) (Some (real_of_int (volume b1)))
                 then
                   Inr (Some \<lparr> system = ''turtle_soup'', direction = ''long'',
                               entry_price = close b1,
                               stop_loss = map_option (\<lambda>a. low b3 - (1.5 * a)) atr,
                               take_profit = find_nearest_liquidity_pool es (close b1) ''up'',
                               invalidation_point = low b3,
                               timestamp = index b1 \<rparr>)
                 else if nan_lt (pd_max (iloc_slice_from_end 23 3 (map high recent_data)))
                                (Some (high b3))
                    \<and> close b1 < open' b1
                    \<and> nan_lt (map_option (\<lambda>v. 2 * v) avg_volume) (Some (real_of_int (volume b1)))
                 then
                   Inr (Some \<lparr> system = ''turtle_soup'', direction = ''short'',
                               entry_price = close b1,
                               stop_loss = map_option (\<lambda>a. high b3 + (1.5 * a)) atr,
                               take_profit = find_nearest_liquidity_pool es (close b1) ''down'',
                               invalidation_point = high b3,
                               timestamp = index b1 \<rparr>)
                 else Inr None
             | _ \<Rightarrow> Inl IndexError))"

text \<open>The two ratios that \<open>crt\<close> tests, over the last 6 bars of a frame.\<close>

definition crt_price_range :: "bar list \<Rightarrow> npfloat" where
  "crt_price_range bars =
     (let recent_data = tail 6 bars
      in np_div (nan_sub (pd_max (map high recent_data)) (pd_min (map low recent_data)))
                (pd_min (map low recent_data)))"

definition crt_volume_ratio :: "bar list \<Rightarrow> py_error + npfloat" where
  "crt_volume_ratio bars =
     (let recent_data = tail 6 bars
      in case iloc_from_end 1 (rolling 20 mean (map (\<lambda>b. real_of_int (volume b)) bars)) of
           Inl e \<Rightarrow> Inl e
         | Inr m \<Rightarrow> Inr (np_div (mean (map (\<lambda>b. real_of_int (volume b)) recent_data)) m))"

definition crt :: "entry_systems \<Rightarrow> py_error + candidate option" where
  "crt es =
    (let recent_data = tail 6 (data es)
     in case calculate_atr (data es) of
          Inl e \<Rightarrow> Inl e
        | Inr atr \<Rightarrow>
            (case crt_volume_ratio (data es) of
               Inl e \<Rightarrow> Inl e
             | Inr volume_ratio \<Rightarrow>
                 if np_le (crt_price_range (data es)) 0.005 \<and> np_lt volume_ratio 0.5 then
                   (case (pd_max (map high recent_data), pd_min (map low recent_data),
                          iloc_from_end 1 recent_data) of
                      (Some range_high, Some range_low, Inr b1) \<Rightarrow>
                        (let range_mid = (range_high + range_low) / 2
                         in if close b1 > range_high then
                              Inr (Some \<lparr> system = ''crt'', direction = ''long'',
                                          entry_price = close b1,
                                          stop_loss = map_option (\<lambda>a. range_low - (1.5 * a)) atr,
                                          take_profit =
                                            find_nearest_liquidity_pool es (close b1) ''up'',
                                          invalidation_point = range_mid,
                                          timestamp = index b1 \<rparr>)
                            else if close b1 < range_low then
                              Inr (Some \<lparr> system = ''crt'', direction = ''short'',
                                          entry_price = close b1,
                                          stop_loss = map_option (\<lambda>a. range_high + (1.5 * a)) atr,
                                          take_profit =
                                            find_nearest_liquidity_pool es (close b1) ''down'',
                                          invalidation_point = range_mid,
                                          timestamp = index b1 \<rparr>)
                            else Inr None)
                    | _ \<Rightarrow> Inl IndexError)
                 else Inr None))"

text \<open>
  \<open>market_maker_model\<close>: the quarterly levels and the bias come from the analysis object,
  and the year from the wall clock.
\<close>

definition market_maker_model :: "int \<Rightarrow> entry_systems \<Rightarrow> py_error + candidate option" where
  "market_maker_model current_year es =
    (let recent_data = tail 3 (data es);
         avg_volume = mean (map (\<lambda>b. real_of_int (volume b)) recent_data)
     in case calculate_atr (data es) of
          Inl e \<Rightarrow> Inl e
        | Inr atr \<Rightarrow>
            (let levels = get_quarterly_levels current_year (ict_analysis es)
             in case (determine_bias current_year (ict_analysis es),
                      iloc_from_end 1 recent_data) of
                  (Inl e, _) \<Rightarrow> Inl e
                | (Inr bias, Inl e) \<Rightarrow> Inl e
                | (Inr bias, Inr b1) \<Rightarrow>
                    if bias = ''bullish'' \<and> low b1 \<le> q2_low levels \<and> close b1 > open' b1
                       \<and> nan_lt (map_option (\<lambda>v. 1.5 * v) avg_volume)
                                (Some (real_of_int (volume b1)))
                    then
                      Inr (Some \<lparr> system = ''market_maker'', direction = ''long'',
                                  entry_price = close b1,
                                  stop_loss = map_option (\<lambda>a. q2_low levels - (1.5 * a)) atr,
                                  take_profit = find_nearest_liquidity_pool es (close b1) ''up'',
                                  invalidation_point = q2_low levels,
                                  timestamp = index b1 \<rparr>)
                    else if bias = ''bearish'' \<and> high b1 \<ge> q3_high levels
                       \<and> close b1 < open' b1
                       \<and> nan_lt (map_option (\<lambda>v. 1.5 * v) avg_volume)
                                (Some (real_of_int (volume b1)))
                    then
                      Inr (Some \<lparr> system = ''market_maker'', direction = ''short'',
                                  entry_price = close b1,
                                  stop_loss = map_option (\<lambda>a. q3_high levels + (1.5 * a)) atr,
                                  take_profit = find_nearest_liquidity_pool es (close b1) ''down'',
                                  invalidation_point = q3_high levels,
                                  timestamp = index b1 \<rparr>)
                    else Inr None))"

text \<open>
  \<open>generate_entries\<close>: the dictionary of entries in insertion order. An exception of any
  of the systems it calls ends the call.
\<close>

definition add_entry :: "string \<Rightarrow> candidate option \<Rightarrow> (string \<times> candidate) list
    \<Rightarrow> (string \<times> candidate) list" where
  "add_entry name found entries =
     (case found of None \<Rightarrow> entries | Some c \<Rightarrow> entries @ [(name, c)])"

definition generate_entries :: "int \<Rightarrow> entry_systems \<Rightarrow> py_error + (string \<times> candidate) list" where
  "generate_entries current_year es =
    (case is_volatile es of
       Inl e \<Rightarrow> Inl e
     | Inr volatile \<Rightarrow>
         (case (if volatile then turtle_soup es else Inr None) of
            Inl e \<Rightarrow> Inl e
          | Inr ts \<Rightarrow>
              (case crt es of
                 Inl e \<Rightarrow> Inl e
               | Inr c \<Rightarrow>
                   (case market_maker_model current_year es of
                      Inl e \<Rightarrow> Inl e
                    | Inr mm \<Rightarrow>
                        Inr (add_entry ''market_maker'' mm
                              (add_entry ''crt'' c (add_entry ''turtle_soup'' ts [])))))))"

section \<open>Example inputs\<close>

text \<open>
  Concrete series for the evaluations below: bar \<open>i\<close> is stamped microsecond \<open>i\<close> of
  2 January 2024 and has the given open, high, low, close and volume.
\<close>

definition mk_bar :: "nat \<Rightarrow> real \<Rightarrow> real \<Rightarrow> real \<Rightarrow> real \<Rightarrow> int \<Rightarrow> bar" where
  "mk_bar i opn hi lo cl vol =
     \<lparr> index = (2024, 1, 2, int i), open' = opn, high = hi, low = lo, close = cl,
       volume = vol \<rparr>"

text \<open>A series of \<open>n\<close> equal bars with range 1.\<close>

definition flat_series :: "nat \<Rightarrow> bar list" where
  "flat_series n = map (\<lambda>i. mk_bar i 1.5 2 1 1.5 100) [0..<n]"

text \<open>A series of \<open>n\<close> bars whose close rises by 1 with every bar, from 100.\<close>

definition ramp_series :: "nat \<Rightarrow> bar list" where
  "ramp_series n = map (\<lambda>i. mk_bar i (100 + real i) (101 + real i) (99 + real i) (100 + real i) 100)
                       [0..<n]"

text \<open>Twenty bars with all prices 0, followed by one bar that closes at 20.\<close>

definition zero_then_up :: "bar list" where
  "zero_then_up = map (\<lambda>i. mk_bar i 0 0 0 0 100) [0..<20] @ [mk_bar 20 0 20 0 20 100]"

text \<open>
  A series with the given highs, in this order; every bar has low = high - 2 and
  open = close = high - 1.
\<close>

definition bars_of_highs :: "real list \<Rightarrow> bar list" where
  "bars_of_highs hs = map (\<lambda>(i, h). mk_bar i (h - 1) h (h - 2) (h - 1) 100) (enumerate 0 hs)"

text \<open>
  Twenty highs: seventeen far apart, then 100, 100.4 and 99.6, which are the three highs
  within 0.5% of the level 100.
\<close>

definition level_highs :: "real list" where
  "level_highs = map (\<lambda>i. 15 + 10 * real i) [0..<17] @ [100, 100.4, 99.6]"

text \<open>An \<open>EntrySystems\<close> object whose analysis object holds the same frame.\<close>

definition both :: "bar list \<Rightarrow> entry_systems" where
  "both bars = \<lparr> data = bars, ict_analysis = bars \<rparr>"

text \<open>
  Twenty bars in the range from 100 to \<open>hi\<close>: fourteen with volume 1000, then six with
  volume 100, the last of which closes at 101, above its own high.
\<close>

definition quiet_range :: "real \<Rightarrow> bar list" where
  "quiet_range hi =
     map (\<lambda>i. mk_bar i 100.1 hi 100 100.1 1000) [0..<14]
       @ map (\<lambda>i. mk_bar i 100.1 hi 100 100.1 100) [14..<19]
       @ [mk_bar 19 100.1 hi 100 101 100]"

text \<open>
  Twenty-five bars: twenty-two between 99 and 101, a bar that dips to 95, a bar that
  recovers, and a last bar that closes above its open on ten times the volume.
\<close>

definition sweep_series :: "bar list" where
  "sweep_series =
     map (\<lambda>i. mk_bar i 100 101 99 100 100) [0..<22]
       @ [mk_bar 22 100 101 95 96 100, mk_bar 23 96 99 95.5 98 100,
          mk_bar 24 98 101 97.5 100.5 1000]"

text \<open>
  A winning signal with risk amount 100 and risk reward 2, with a take profit and a stop
  loss and the given entry price (or none), and a losing signal with risk amount 102.
\<close>

definition win_signal :: "real option \<Rightarrow> signal" where
  "win_signal entry =
     \<lparr> sig_result = Some ''win'', sig_risk_amount = Some 100, sig_risk_reward = Some 2,
       sig_entry_price = entry, sig_stop_loss = Some 40, sig_take_profit = Some 70 \<rparr>"

definition loss_signal :: signal where
  "loss_signal =
     \<lparr> sig_result = Some ''loss'', sig_risk_amount = Some 102, sig_risk_reward = None,
       sig_entry_price = Some 50, sig_stop_loss = Some 45, sig_take_profit = Some 60 \<rparr>"

section \<open>Properties of the risk engine\<close>

lemma pip_values_dom: "dom pip_values = {''XAUUSD'', ''NASDAQ''}"
  by (auto simp: pip_values_def split: if_splits)

lemma pip_values_nonzero: "pip_values a = Some p \<Longrightarrow> p \<noteq> 0"
  by (auto simp: pip_values_def split: if_splits)

text \<open>
  Claim C1 as stated fails: the stops returned for the current prices 103, 105, 104
  (entry 100, ATR 2, long, lock active at each of them) are 101, 103, 102, and the
  last is below the one before.
\<close>

theorem trailing_stop_ratchet_counterexample:
  "calculate_trailing_stop 100 103 ''long'' 2 = 101 \<and>
   calculate_trailing_stop 100 105 ''long'' 2 = 103 \<and>
   calculate_trailing_stop 100 104 ''long'' 2 = 102 \<and>
   (104::real) - 100 \<ge> 2 \<and>
   calculate_trailing_stop 100 104 ''long'' 2 < calculate_trailing_stop 100 105 ''long'' 2"
  by (simp add: calculate_trailing_stop_def)

text \<open>
  Claim C1, amended: for a long position with the lock active (profit at least one ATR)
  the stop returned is \<open>max entry (current - atr)\<close>; it is never below the entry price,
  and it follows the current price monotonically: of two calls with the lock active, the
  one with the lower current price returns the stop that is lower or equal. The function
  keeps no previous stop.
\<close>

theorem trailing_stop_long_locked:
  assumes "p1 - entry \<ge> atr" and "p2 - entry \<ge> atr" and "p2 \<le> p1"
  shows "calculate_trailing_stop entry p2 ''long'' atr = max entry (p2 - atr)
       \<and> entry \<le> calculate_trailing_stop entry p2 ''long'' atr
       \<and> calculate_trailing_stop entry p2 ''long'' atr
           \<le> calculate_trailing_stop entry p1 ''long'' atr"
  using assms by (simp add: calculate_trailing_stop_def)

theorem trailing_stop_long_locked_witness:
  "(105::real) - 100 \<ge> 2 \<and> (104::real) - 100 \<ge> 2 \<and> (104::real) \<le> 105
   \<and> calculate_trailing_stop 100 104 ''long'' 2 = max 100 (104 - 2)
   \<and> 100 \<le> calculate_trailing_stop 100 104 ''long'' 2
   \<and> calculate_trailing_stop 100 104 ''long'' 2 \<le> calculate_trailing_stop 100 105 ''long'' 2"
  using trailing_stop_long_locked [of 2 105 100 104] by simp



text \<open>
  Claim C10 as stated fails: for a configured asset the call does not succeed when the
  entry price equals the stop loss, because the division raises ZeroDivisionError.
\<close>

theorem position_size_known_asset_counterexample:
  "''XAUUSD'' \<in> dom pip_values
   \<and> calculate_position_size ''XAUUSD'' 100 100 None None = Inl ZeroDivisionError"
  by (simp add: calculate_position_size_def pip_values_def)

text \<open>
  Claim C10, amended: the pip-value lookup fails with KeyError exactly for the assets
  other than XAUUSD and NASDAQ, and no default pip value is substituted; for a configured
  asset with an entry price different from the stop loss the call returns a sizing
  result that carries the configured pip value.
\<close>

theorem position_size_unknown_asset:
  "(calculate_position_size asset entry stop balance risk_percent = Inl KeyError
      \<longleftrightarrow> asset \<notin> {''XAUUSD'', ''NASDAQ''})
   \<and> (asset \<in> {''XAUUSD'', ''NASDAQ''} \<and> entry \<noteq> stop \<longrightarrow>
        (\<exists>r. calculate_position_size asset entry stop balance risk_percent = Inr r
             \<and> pip_values asset = Some (pip_value r)))"
proof -
  have d: "pip_values asset = None \<longleftrightarrow> asset \<notin> {''XAUUSD'', ''NASDAQ''}"
    using pip_values_dom by (metis domIff)
  show ?thesis
  proof (cases "pip_values asset")
    case None
    then show ?thesis
      using d by (simp add: calculate_position_size_def Let_def)
  next
    case (Some p)
    then have "p \<noteq> 0" by (rule pip_values_nonzero)
    then show ?thesis
      using d Some by (simp add: calculate_position_size_def Let_def)
  qed
qed

theorem position_size_unknown_asset_witness:
  "calculate_position_size ''EURUSD'' 2000 1990 None None = Inl KeyError
   \<and> ''EURUSD'' \<notin> {''XAUUSD'', ''NASDAQ''}
   \<and> ''NASDAQ'' \<in> {''XAUUSD'', ''NASDAQ''} \<and> (2000::real) \<noteq> 1990
   \<and> (\<exists>r. calculate_position_size ''NASDAQ'' 2000 1990 None None = Inr r
          \<and> pip_values ''NASDAQ'' = Some (pip_value r))"
  using position_size_unknown_asset [of "''EURUSD''" 2000 1990 None None]
    position_size_unknown_asset [of "''NASDAQ''" 2000 1990 None None]
  by simp

lemma risk_rewards_single:
  assumes "sig_take_profit s = None \<or> sig_stop_loss s = None \<or> sig_entry_price s \<noteq> None"
  shows "\<exists>rs. risk_rewards [s] = Inr rs"
  using assms by (auto split: option.splits)

lemma risk_rewards_pair:
  assumes "sig_take_profit s = None \<or> sig_stop_loss s = None \<or> sig_entry_price s \<noteq> None"
    and "sig_take_profit l = None \<or> sig_stop_loss l = None \<or> sig_entry_price l \<noteq> None"
  shows "\<exists>rs. risk_rewards [s, l] = Inr rs"
  using assms by (auto split: option.splits)

text \<open>
  Claim C9 as stated fails: a winning signal with risk amount 100 and risk reward 2 that
  carries a take profit and a stop loss but no entry price makes the lookup
  \<open>signal['entry_price']\<close> raise KeyError, and no metrics are returned.
\<close>

theorem portfolio_metrics_missing_entry_counterexample:
  "sig_result (win_signal None) = Some ''win''
   \<and> sig_risk_amount (win_signal None) = Some 100
   \<and> sig_risk_reward (win_signal None) = Some 2
   \<and> calculate_portfolio_metrics [win_signal None] = Inl KeyError"
  by (simp add: win_signal_def calculate_portfolio_metrics_def)

text \<open>
  Claim C9, amended: on the empty list all four metrics are zero. On a single winning
  signal with risk amount 100 and risk reward 2 that has an entry price whenever it has
  both a take profit and a stop loss, the equity curve is replayed from the default
  balance 10000 and is the one value 10200, 200 above it, and the metrics returned have
  the maximum drawdown of that curve, which is 0 (with one trade and win rate 1). The
  credit of 200 shows in what is returned when a losing signal with risk amount
  \<open>a \<ge> 0\<close> follows: the curve is 10200, 10200 - a and the maximum drawdown is a / 10200.
\<close>

theorem portfolio_metrics_single_win:
  "calculate_portfolio_metrics []
     = Inr \<lparr> win_rate = 0, avg_risk_reward = 0, max_drawdown = Fin 0, total_trades = 0 \<rparr>
   \<and> (sig_result s = Some ''win'' \<and> sig_risk_amount s = Some 100
        \<and> sig_risk_reward s = Some 2
        \<and> (sig_take_profit s = None \<or> sig_stop_loss s = None \<or> sig_entry_price s \<noteq> None)
      \<longrightarrow>
        default_balance = 10000
      \<and> equity_curve [s] = [default_balance + 200]
      \<and> (\<exists>m. calculate_portfolio_metrics [s] = Inr m
             \<and> max_drawdown m = np_max (drawdown (equity_curve [s]))
             \<and> max_drawdown m = Fin 0 \<and> total_trades m = 1 \<and> win_rate m = 1)
      \<and> (\<forall>l r a. sig_result l = Some r \<and> r \<noteq> ''win'' \<and> sig_risk_amount l = Some a \<and> 0 \<le> a
             \<and> (sig_take_profit l = None \<or> sig_stop_loss l = None
                  \<or> sig_entry_price l \<noteq> None)
           \<longrightarrow>
             equity_curve [s, l] = [default_balance + 200, default_balance + 200 - a]
           \<and> (\<exists>m. calculate_portfolio_metrics [s, l] = Inr m
                  \<and> max_drawdown m = Fin (a / (default_balance + 200))
                  \<and> total_trades m = 2 \<and> win_rate m = 1 / 2)))"
proof -
  have empty: "calculate_portfolio_metrics []
     = Inr \<lparr> win_rate = 0, avg_risk_reward = 0, max_drawdown = Fin 0, total_trades = 0 \<rparr>"
    by (simp add: calculate_portfolio_metrics_def)
  have single: "default_balance = 10000
      \<and> equity_curve [s] = [default_balance + 200]
      \<and> (\<exists>m. calculate_portfolio_metrics [s] = Inr m
             \<and> max_drawdown m = np_max (drawdown (equity_curve [s]))
             \<and> max_drawdown m = Fin 0 \<and> total_trades m = 1 \<and> win_rate m = 1)"
    if w: "sig_result s = Some ''win''" "sig_risk_amount s = Some 100"
      "sig_risk_reward s = Some 2"
      and ok: "sig_take_profit s = None \<or> sig_stop_loss s = None \<or> sig_entry_price s \<noteq> None"
  proof -
    obtain rs where rs: "risk_rewards [s] = Inr rs"
      using risk_rewards_single [OF ok] by blast
    have c: "equity_curve [s] = [10200]"
      using w by (simp add: equity_curve_def default_balance_def)
    show ?thesis
      unfolding calculate_portfolio_metrics_def Let_def rs c
      using w by (simp add: drawdown_def default_balance_def)
  qed
  have pair: "equity_curve [s, l] = [default_balance + 200, default_balance + 200 - a]
           \<and> (\<exists>m. calculate_portfolio_metrics [s, l] = Inr m
                  \<and> max_drawdown m = Fin (a / (default_balance + 200))
                  \<and> total_trades m = 2 \<and> win_rate m = 1 / 2)"
    if w: "sig_result s = Some ''win''" "sig_risk_amount s = Some 100"
      "sig_risk_reward s = Some 2"
      and ok: "sig_take_profit s = None \<or> sig_stop_loss s = None \<or> sig_entry_price s \<noteq> None"
      and l: "sig_result l = Some r" "r \<noteq> ''win''" "sig_risk_amount l = Some a" "0 \<le> a"
      and okl: "sig_take_profit l = None \<or> sig_stop_loss l = None \<or> sig_entry_price l \<noteq> None"
    for l r a
  proof -
    obtain rs where rs: "risk_rewards [s, l] = Inr rs"
      using risk_rewards_pair [OF ok okl] by blast
    have c: "equity_curve [s, l] = [10200, 10200 - a]"
      using w l by (simp add: equity_curve_def default_balance_def)
    have m: "max 0 (a / 10200) = a / 10200" using l(4) by simp
    show ?thesis
      unfolding calculate_portfolio_metrics_def Let_def rs c
      using w l m by (simp add: drawdown_def default_balance_def)
  qed
  from empty single pair show ?thesis by blast
qed

theorem portfolio_metrics_single_win_witness:
  "calculate_portfolio_metrics [win_signal (Some 50)]
     = Inr \<lparr> win_rate = 1, avg_risk_reward = 2, max_drawdown = Fin 0, total_trades = 1 \<rparr>
   \<and> equity_curve [win_signal (Some 50)] = [10200]
   \<and> equity_curve [win_signal (Some 50), loss_signal] = [10200, 10098]
   \<and> calculate_portfolio_metrics [win_signal (Some 50), loss_signal]
     = Inr \<lparr> win_rate = 1 / 2, avg_risk_reward = 2, max_drawdown = Fin (1 / 100),
             total_trades = 2 \<rparr>"
proof -
  have s: "sig_result (win_signal (Some 50)) = Some ''win''"
    "sig_risk_amount (win_signal (Some 50)) = Some 100"
    "sig_risk_reward (win_signal (Some 50)) = Some 2"
    "sig_take_profit (win_signal (Some 50)) = None \<or> sig_stop_loss (win_signal (Some 50)) = None
       \<or> sig_entry_price (win_signal (Some 50)) \<noteq> None"
    by (simp_all add: win_signal_def)
  have l: "sig_result loss_signal = Some ''loss''" "''loss'' \<noteq> ''win''"
    "sig_risk_amount loss_signal = Some 102" "(0::real) \<le> 102"
    "sig_take_profit loss_signal = None \<or> sig_stop_loss loss_signal = None
       \<or> sig_entry_price loss_signal \<noteq> None"
    by (simp_all add: loss_signal_def)
  have m1: "calculate_portfolio_metrics [win_signal (Some 50)]
     = Inr \<lparr> win_rate = 1, avg_risk_reward = 2, max_drawdown = Fin 0, total_trades = 1 \<rparr>"
    by (simp add: win_signal_def calculate_portfolio_metrics_def drawdown_def
        equity_curve_def default_balance_def)
  have m2: "calculate_portfolio_metrics [win_signal (Some 50), loss_signal]
     = Inr \<lparr> win_rate = 1 / 2, avg_risk_reward = 2, max_drawdown = Fin (1 / 100),
             total_trades = 2 \<rparr>"
    by (simp add: win_signal_def loss_signal_def calculate_portfolio_metrics_def drawdown_def
        equity_curve_def default_balance_def)
  from portfolio_metrics_single_win [of "win_signal (Some 50)"] s l
  have "equity_curve [win_signal (Some 50)] = [default_balance + 200]
      \<and> equity_curve [win_signal (Some 50), loss_signal]
          = [default_balance + 200, default_balance + 200 - 102]
      \<and> default_balance = 10000"
    by blast
  then have "equity_curve [win_signal (Some 50)] = [10200]
      \<and> equity_curve [win_signal (Some 50), loss_signal] = [10200, 10098]"
    by simp
  with m1 m2 show ?thesis by blast
qed

section \<open>Properties of the indicators\<close>

lemma length_rolling: "length (rolling w agg xs) = length xs"
  by (simp add: rolling_def)

lemma rolling_nth:
  "i < length xs \<Longrightarrow>
   rolling w agg xs ! i = (if w \<le> i + 1 then agg (take w (drop (i + 1 - w) xs)) else None)"
  by (simp add: rolling_def)

lemma length_tr_rows: "length (tr_rows c bs) = length bs"
  by (induction bs arbitrary: c) auto

lemma length_true_range: "length (true_range bars) = length bars"
  by (cases bars) (auto simp: length_tr_rows)

lemma calculate_atr_empty: "calculate_atr [] = Inl IndexError"
  by (simp add: calculate_atr_def iloc_from_end_def rolling_def)

lemma calculate_atr_short:
  assumes "bars \<noteq> []" "length bars < 20"
  shows "calculate_atr bars = Inr None"
  using assms
  by (simp add: calculate_atr_def iloc_from_end_def length_rolling length_true_range
      rolling_nth atr_period_def)

lemma calculate_atr_enough:
  assumes "20 \<le> length bars"
  shows "calculate_atr bars
    = Inr (Some (sum_list (take 20 (drop (length bars - 20) (true_range bars))) / 20))"
  using assms
  by (auto simp: calculate_atr_def iloc_from_end_def length_rolling length_true_range
      rolling_nth atr_period_def mean_def)

lemma sma_slope_short: "length bars < 2 \<Longrightarrow> calculate_sma_slope bars 20 = Fin 0"
  by (simp add: calculate_sma_slope_def length_rolling)

lemma sma_slope_nan:
  assumes "2 \<le> length bars" "length bars \<le> 20"
  shows "calculate_sma_slope bars 20 = NaN"
  using assms
  by (simp add: calculate_sma_slope_def length_rolling rolling_nth Let_def)

lemma sma_slope_enough:
  assumes "21 \<le> length bars"
  shows "calculate_sma_slope bars 20
    = np_div (Some (sum_list (take 20 (drop (length bars - 20) (map close bars))) / 20
                   - sum_list (take 20 (drop (length bars - 21) (map close bars))) / 20))
             (Some (sum_list (take 20 (drop (length bars - 21) (map close bars))) / 20))"
  using assms
  by (auto simp: calculate_sma_slope_def length_rolling rolling_nth Let_def mean_def)

text \<open>
  Claim C3 as stated fails: with exactly 20 bars \<open>calculate_atr\<close> returns an ordinary
  number, and with a single bar \<open>calculate_sma_slope\<close> returns the number 0.
\<close>

theorem insufficient_data_counterexample:
  "length (flat_series 20) < 21 \<and> calculate_atr (flat_series 20) = Inr (Some 1)
   \<and> length (flat_series 1) < 21 \<and> calculate_sma_slope (flat_series 1) 20 = Fin 0"
  by code_simp

text \<open>
  Claim C3, amended: for a series with fewer than 21 bars, \<open>calculate_atr\<close> raises
  IndexError on the empty series, returns NaN for 1 to 19 bars, and returns the mean of
  the 20 true ranges for exactly 20 bars (the ATR needs \<open>period\<close> bars);
  \<open>calculate_sma_slope\<close> returns NaN for 2 to 20 bars and the number 0 for fewer than 2.
\<close>

theorem indicators_short_series:
  assumes "length bars < 21"
  shows "(calculate_atr bars = Inl IndexError \<longleftrightarrow> bars = [])
       \<and> (calculate_atr bars = Inr None \<longleftrightarrow> 1 \<le> length bars \<and> length bars \<le> 19)
       \<and> (length bars = 20 \<longrightarrow>
            calculate_atr bars = Inr (Some (sum_list (true_range bars) / 20)))
       \<and> (calculate_sma_slope bars 20 = NaN \<longleftrightarrow> 2 \<le> length bars)
       \<and> (length bars < 2 \<longrightarrow> calculate_sma_slope bars 20 = Fin 0)"
proof -
  consider "bars = []" | "bars \<noteq> []" "length bars < 20" | "length bars = 20"
    using assms by fastforce
  then have atr: "(calculate_atr bars = Inl IndexError \<longleftrightarrow> bars = [])
       \<and> (calculate_atr bars = Inr None \<longleftrightarrow> 1 \<le> length bars \<and> length bars \<le> 19)
       \<and> (length bars = 20 \<longrightarrow>
            calculate_atr bars = Inr (Some (sum_list (true_range bars) / 20)))"
  proof cases
    case 1
    then show ?thesis by (simp add: calculate_atr_empty)
  next
    case 2
    then show ?thesis
      using calculate_atr_short [of bars] by (cases bars) auto
  next
    case 3
    then show ?thesis
      using calculate_atr_enough [of bars] by (auto simp: length_true_range)
  qed
  have sma: "(calculate_sma_slope bars 20 = NaN \<longleftrightarrow> 2 \<le> length bars)
       \<and> (length bars < 2 \<longrightarrow> calculate_sma_slope bars 20 = Fin 0)"
  proof (cases "length bars < 2")
    case True
    then show ?thesis using sma_slope_short [of bars] by simp
  next
    case False
    then show ?thesis using sma_slope_nan [of bars] assms by simp
  qed
  from atr sma show ?thesis by simp
qed

theorem indicators_short_series_witness:
  "length (ramp_series 20) < 21 \<and> length (ramp_series 20) = 20
   \<and> calculate_atr (ramp_series 20) = Inr (Some (sum_list (true_range (ramp_series 20)) / 20))
   \<and> calculate_sma_slope (ramp_series 20) 20 = NaN
   \<and> length (ramp_series 1) < 21 \<and> length (ramp_series 1) < 2
   \<and> calculate_sma_slope (ramp_series 1) 20 = Fin 0
   \<and> length (ramp_series 7) < 21 \<and> calculate_atr (ramp_series 7) = Inr None"
proof -
  have l: "length (ramp_series 20) = 20" "length (ramp_series 1) = 1"
    "length (ramp_series 7) = 7"
    by (simp_all add: ramp_series_def)
  show ?thesis
    using indicators_short_series [of "ramp_series 20"]
      indicators_short_series [of "ramp_series 1"]
      indicators_short_series [of "ramp_series 7"] l
    by simp
qed

text \<open>
  Claim C5 as stated fails: a previous SMA value of zero is not special-cased. With twenty
  closes of 0 followed by a close of 20 the previous SMA is 0, the last SMA is 1, and
  the numpy division returns infinity.
\<close>

theorem sma_slope_zero_denominator_counterexample:
  "rolling 20 mean (map close zero_then_up) ! 19 = Some 0
   \<and> rolling 20 mean (map close zero_then_up) ! 20 = Some 1
   \<and> calculate_sma_slope zero_then_up 20 = PInf"
  by code_simp

text \<open>
  Claim C5, amended: with fewer than 2 bars \<open>calculate_sma_slope\<close> returns 0; with at
  least 21 bars, where the last two SMA values exist, it returns (last - previous) /
  previous when the previous SMA is not zero, and when the previous SMA is zero the
  division is carried out all the same and gives NaN or an infinity, by the sign of the
  last SMA; with 2 to 20 bars the result is NaN.
\<close>

theorem sma_slope_value:
  "(length bars < 2 \<longrightarrow> calculate_sma_slope bars 20 = Fin 0)
   \<and> (2 \<le> length bars \<and> length bars \<le> 20 \<longrightarrow> calculate_sma_slope bars 20 = NaN)
   \<and> (21 \<le> length bars \<longrightarrow>
        (let last_sma = sum_list (take 20 (drop (length bars - 20) (map close bars))) / 20;
             prev_sma = sum_list (take 20 (drop (length bars - 21) (map close bars))) / 20
         in rolling 20 mean (map close bars) ! (length bars - 1) = Some last_sma
          \<and> rolling 20 mean (map close bars) ! (length bars - 2) = Some prev_sma
          \<and> calculate_sma_slope bars 20 =
              (if prev_sma \<noteq> 0 then Fin ((last_sma - prev_sma) / prev_sma)
               else if last_sma = 0 then NaN
               else if 0 < last_sma then PInf else NInf)))"
proof -
  have "21 \<le> length bars \<Longrightarrow>
      rolling 20 mean (map close bars) ! (length bars - 1)
        = Some (sum_list (take 20 (drop (length bars - 20) (map close bars))) / 20)
    \<and> rolling 20 mean (map close bars) ! (length bars - 2)
        = Some (sum_list (take 20 (drop (length bars - 21) (map close bars))) / 20)"
    by (auto simp: rolling_nth mean_def)
  then show ?thesis
    using sma_slope_short [of bars] sma_slope_nan [of bars] sma_slope_enough [of bars]
    by (simp add: Let_def)
qed

theorem sma_slope_value_witness:
  "length (ramp_series 1) < 2 \<and> calculate_sma_slope (ramp_series 1) 20 = Fin 0
   \<and> 2 \<le> length (ramp_series 20) \<and> length (ramp_series 20) \<le> 20
   \<and> calculate_sma_slope (ramp_series 20) 20 = NaN
   \<and> 21 \<le> length (ramp_series 21)
   \<and> calculate_sma_slope (ramp_series 21) 20 = Fin (2 / 219)
   \<and> 21 \<le> length zero_then_up
   \<and> calculate_sma_slope zero_then_up 20 = PInf"
proof -
  have l: "length (ramp_series 1) = 1" "length (ramp_series 20) = 20"
    "length (ramp_series 21) = 21" "length zero_then_up = 21"
    by (simp_all add: ramp_series_def zero_then_up_def)
  have r: "sum_list (take 20 (drop (21 - 20) (map close (ramp_series 21)))) / 20 = 221 / 2"
    "sum_list (take 20 (drop (21 - 21) (map close (ramp_series 21)))) / 20 = 219 / 2"
    by code_simp+
  have z: "sum_list (take 20 (drop (21 - 20) (map close zero_then_up))) / 20 = 1"
    "sum_list (take 20 (drop (21 - 21) (map close zero_then_up))) / 20 = 0"
    by code_simp+
  show ?thesis
    using sma_slope_value [of "ramp_series 1"] sma_slope_value [of "ramp_series 20"]
      sma_slope_value [of "ramp_series 21"] sma_slope_value [of zero_then_up] l r z
    by (simp add: Let_def)
qed

section \<open>Properties of the structure analysis\<close>

lemma within_tolerance_pos:
  "0 < q \<Longrightarrow> within_tolerance th q p \<longleftrightarrow> \<bar>p - q\<bar> \<le> th * q"
  by (simp add: within_tolerance_def field_simps)

lemma scan_clusters_iff:
  "c \<in> set (scan_clusters th rows) \<longleftrightarrow>
     (\<exists>i. i + 2 < length rows
        \<and> 3 \<le> cluster_count th (snd (rows ! i)) (map snd (drop (Suc i) rows))
        \<and> c = \<lparr> cl_price = snd (rows ! i),
                 cl_count = cluster_count th (snd (rows ! i)) (map snd (drop (Suc i) rows)),
                 cl_timestamp = fst (rows ! i) \<rparr>)"
proof (induction th rows rule: scan_clusters.induct)
  case (1 th r r2 r3 rest)
  let ?rows = "r # r2 # r3 # rest"
  let ?P = "\<lambda>rows i. i + 2 < length rows
        \<and> 3 \<le> cluster_count th (snd (rows ! i)) (map snd (drop (Suc i) rows))
        \<and> c = \<lparr> cl_price = snd (rows ! i),
                 cl_count = cluster_count th (snd (rows ! i)) (map snd (drop (Suc i) rows)),
                 cl_timestamp = fst (rows ! i) \<rparr>"
  have split: "(\<exists>i. ?P ?rows i) \<longleftrightarrow> ?P ?rows 0 \<or> (\<exists>i. ?P (r2 # r3 # rest) i)"
  proof
    assume "\<exists>i. ?P ?rows i"
    then obtain i where i: "?P ?rows i" ..
    show "?P ?rows 0 \<or> (\<exists>i. ?P (r2 # r3 # rest) i)"
    proof (cases i)
      case 0
      with i show ?thesis by simp
    next
      case (Suc k)
      with i have "?P (r2 # r3 # rest) k" by simp
      then show ?thesis by blast
    qed
  next
    assume "?P ?rows 0 \<or> (\<exists>i. ?P (r2 # r3 # rest) i)"
    then show "\<exists>i. ?P ?rows i"
    proof
      assume "?P ?rows 0"
      then show ?thesis by blast
    next
      assume "\<exists>i. ?P (r2 # r3 # rest) i"
      then obtain k where "?P (r2 # r3 # rest) k" ..
      then have "?P ?rows (Suc k)" by simp
      then show ?thesis by blast
    qed
  qed
  have "c \<in> set (scan_clusters th ?rows) \<longleftrightarrow>
      (3 \<le> cluster_count th (snd r) (map snd (r2 # r3 # rest))
        \<and> c = \<lparr> cl_price = snd r,
                 cl_count = cluster_count th (snd r) (map snd (r2 # r3 # rest)),
                 cl_timestamp = fst r \<rparr>)
      \<or> c \<in> set (scan_clusters th (r2 # r3 # rest))"
    by (auto simp: Let_def)
  also have "\<dots> \<longleftrightarrow> ?P ?rows 0 \<or> (\<exists>i. ?P (r2 # r3 # rest) i)"
    using "1.IH" by simp
  finally show ?case using split by simp
qed simp_all

lemma scan_clusters_column:
  "c \<in> set (scan_clusters th (map (\<lambda>b. (index b, f b)) w)) \<longleftrightarrow>
     (\<exists>i < length w.
        2 \<le> length (filter (within_tolerance th (f (w ! i))) (drop (Suc i) (map f w)))
        \<and> c = \<lparr> cl_price = f (w ! i),
                 cl_count = 1 + length (filter (within_tolerance th (f (w ! i)))
                                          (drop (Suc i) (map f w))),
                 cl_timestamp = index (w ! i) \<rparr>)"
  (is "?L \<longleftrightarrow> ?R")
proof -
  let ?rows = "map (\<lambda>b. (index b, f b)) w"
  have later: "map snd (drop (Suc i) ?rows) = drop (Suc i) (map f w)" for i
    by (simp add: drop_map comp_def)
  have enough: "i + 2 < length w"
    if "2 \<le> length (filter (within_tolerance th (f (w ! i))) (drop (Suc i) (map f w)))" for i
  proof -
    have "length (filter (within_tolerance th (f (w ! i))) (drop (Suc i) (map f w)))
        \<le> length (drop (Suc i) (map f w))"
      by (rule length_filter_le)
    with that show ?thesis by simp
  qed
  show ?thesis
  proof
    assume ?L
    then obtain i where i: "i + 2 < length ?rows"
      "3 \<le> cluster_count th (snd (?rows ! i)) (map snd (drop (Suc i) ?rows))"
      "c = \<lparr> cl_price = snd (?rows ! i),
             cl_count = cluster_count th (snd (?rows ! i)) (map snd (drop (Suc i) ?rows)),
             cl_timestamp = fst (?rows ! i) \<rparr>"
      unfolding scan_clusters_iff by blast
    from i(1) have lt: "i < length w" by simp
    with i(2,3) show ?R
      unfolding later by (auto simp: cluster_count_def)
  next
    assume ?R
    then obtain i where i: "i < length w"
      "2 \<le> length (filter (within_tolerance th (f (w ! i))) (drop (Suc i) (map f w)))"
      "c = \<lparr> cl_price = f (w ! i),
             cl_count = 1 + length (filter (within_tolerance th (f (w ! i)))
                                      (drop (Suc i) (map f w))),
             cl_timestamp = index (w ! i) \<rparr>"
      by blast
    from enough [OF i(2)] have "i + 2 < length ?rows" by simp
    moreover have "3 \<le> cluster_count th (snd (?rows ! i)) (map snd (drop (Suc i) ?rows))"
      unfolding later using i(1,2) by (simp add: cluster_count_def)
    moreover have "c = \<lparr> cl_price = snd (?rows ! i),
             cl_count = cluster_count th (snd (?rows ! i)) (map snd (drop (Suc i) ?rows)),
             cl_timestamp = fst (?rows ! i) \<rparr>"
      unfolding later using i(1,3) by (simp add: cluster_count_def)
    ultimately show ?L
      unfolding scan_clusters_iff by blast
  qed
qed

lemma highs_find_liquidity_pools:
  "highs (find_liquidity_pools bars lookback th)
     = scan_clusters th (map (\<lambda>b. (index b, high b)) (tail lookback bars))"
  by (simp add: find_liquidity_pools_def Let_def)

lemma lows_find_liquidity_pools:
  "lows (find_liquidity_pools bars lookback th)
     = scan_clusters th (map (\<lambda>b. (index b, low b)) (tail lookback bars))"
  by (simp add: find_liquidity_pools_def Let_def)

lemma level_highs_forward:
  "scan_clusters 0.005 (map (\<lambda>b. (index b, high b)) (tail 20 (bars_of_highs level_highs)))
     = [\<lparr> cl_price = 100, cl_count = 3, cl_timestamp = (2024, 1, 2, 17) \<rparr>]"
  by code_simp

lemma level_highs_reversed:
  "scan_clusters 0.005
     (map (\<lambda>b. (index b, high b)) (tail 20 (bars_of_highs (rev level_highs)))) = []"
  by code_simp

lemma level_highs_touches:
  "length level_highs = 20"
  "filter (\<lambda>h. \<bar>h - 100\<bar> / 100 \<le> 0.005) level_highs = [100, 100.4, 99.6]"
  by code_simp+

text \<open>
  Claim C7 as stated fails: in a window of 20 bars whose highs touch the level 100
  exactly three times within 0.5% (100, 100.4, 99.6), the cluster is recorded when the
  bar with high 100 comes first of the three, and nothing is recorded when the same
  window is scanned in the reverse order.
\<close>

theorem liquidity_cluster_order_counterexample:
  "length level_highs = 20
   \<and> filter (\<lambda>h. \<bar>h - 100\<bar> / 100 \<le> 0.005) level_highs = [100, 100.4, 99.6]
   \<and> highs (find_liquidity_pools (bars_of_highs level_highs) 20 0.005)
       = [\<lparr> cl_price = 100, cl_count = 3, cl_timestamp = (2024, 1, 2, 17) \<rparr>]
   \<and> highs (find_liquidity_pools (bars_of_highs (rev level_highs)) 20 0.005) = []"
  unfolding highs_find_liquidity_pools level_highs_forward level_highs_reversed
  using level_highs_touches by simp

text \<open>
  Claim C7, amended: over the window of the last 20 bars, a high-side cluster is
  recorded for bar \<open>i\<close> exactly when at least 2 later bars of the window have a high
  within 0.5% of the high of bar \<open>i\<close>, measured relative to that high; its price is the
  high of bar \<open>i\<close>, its count is 1 plus the number of those later bars (so at least 3),
  and a bar with fewer than 2 such later bars is never recorded. Only later bars are
  counted, so the result depends on the scan order. The same holds for the lows.
\<close>

theorem liquidity_cluster_rule:
  "(c \<in> set (highs (find_liquidity_pools bars 20 0.005)) \<longleftrightarrow>
     (\<exists>i < length (tail 20 bars).
        2 \<le> length (filter (within_tolerance 0.005 (high (tail 20 bars ! i)))
                       (drop (Suc i) (map high (tail 20 bars))))
        \<and> c = \<lparr> cl_price = high (tail 20 bars ! i),
                 cl_count = 1 + length (filter (within_tolerance 0.005 (high (tail 20 bars ! i)))
                                          (drop (Suc i) (map high (tail 20 bars)))),
                 cl_timestamp = index (tail 20 bars ! i) \<rparr>))
   \<and> (c \<in> set (lows (find_liquidity_pools bars 20 0.005)) \<longleftrightarrow>
     (\<exists>i < length (tail 20 bars).
        2 \<le> length (filter (within_tolerance 0.005 (low (tail 20 bars ! i)))
                       (drop (Suc i) (map low (tail 20 bars))))
        \<and> c = \<lparr> cl_price = low (tail 20 bars ! i),
                 cl_count = 1 + length (filter (within_tolerance 0.005 (low (tail 20 bars ! i)))
                                          (drop (Suc i) (map low (tail 20 bars)))),
                 cl_timestamp = index (tail 20 bars ! i) \<rparr>))"
  unfolding highs_find_liquidity_pools lows_find_liquidity_pools
  by (rule conjI; rule scan_clusters_column)

theorem liquidity_cluster_rule_witness:
  "\<lparr> cl_price = 100, cl_count = 3, cl_timestamp = (2024, 1, 2, 17) \<rparr>
     \<in> set (highs (find_liquidity_pools (bars_of_highs level_highs) 20 0.005))
   \<and> (\<exists>i < length (tail 20 (bars_of_highs level_highs)).
        2 \<le> length (filter (within_tolerance 0.005
                               (high (tail 20 (bars_of_highs level_highs) ! i)))
                       (drop (Suc i) (map high (tail 20 (bars_of_highs level_highs)))))
        \<and> \<lparr> cl_price = 100, cl_count = 3, cl_timestamp = (2024, 1, 2, 17) \<rparr>
          = \<lparr> cl_price = high (tail 20 (bars_of_highs level_highs) ! i),
              cl_count = 1 + length (filter (within_tolerance 0.005
                                               (high (tail 20 (bars_of_highs level_highs) ! i)))
                                       (drop (Suc i)
                                          (map high (tail 20 (bars_of_highs level_highs))))),
              cl_timestamp = index (tail 20 (bars_of_highs level_highs) ! i) \<rparr>)"
proof -
  have m: "\<lparr> cl_price = 100, cl_count = 3, cl_timestamp = (2024, 1, 2, 17) \<rparr>
     \<in> set (highs (find_liquidity_pools (bars_of_highs level_highs) 20 0.005))"
    unfolding highs_find_liquidity_pools level_highs_forward by simp
  show ?thesis
    using liquidity_cluster_rule
      [of "\<lparr> cl_price = 100, cl_count = 3, cl_timestamp = (2024, 1, 2, 17) \<rparr>"
          "bars_of_highs level_highs"] m
    by blast
qed

section \<open>Properties of the entry systems\<close>

lemma pd_max_Some: "xs \<noteq> [] \<Longrightarrow> pd_max xs = Some (Max (set xs))"
  by (cases xs) (simp_all add: Max.set_eq_fold [symmetric])

lemma pd_min_Some: "xs \<noteq> [] \<Longrightarrow> pd_min xs = Some (Min (set xs))"
  by (cases xs) (simp_all add: Min.set_eq_fold [symmetric])

lemma tail_eq_Nil: "tail n xs = [] \<longleftrightarrow> xs = [] \<or> n = 0"
  by (cases xs) (auto simp: tail_def)

lemma set_tail: "set (tail n xs) \<subseteq> set xs"
  by (simp add: tail_def set_drop_subset)

lemma length_tail: "length (tail n xs) = min n (length xs)"
  by (simp add: tail_def)

lemma iloc_last: "xs \<noteq> [] \<Longrightarrow> iloc_from_end 1 xs = Inr (last xs)"
  by (cases xs rule: rev_cases) (simp_all add: iloc_from_end_def nth_append)

lemma iloc_last_empty: "iloc_from_end 1 [] = Inl IndexError"
  by (simp add: iloc_from_end_def)

lemma last_tail: "xs \<noteq> [] \<Longrightarrow> 0 < n \<Longrightarrow> last (tail n xs) = last xs"
  by (simp add: tail_def)

lemma calculate_atr_cases:
  "calculate_atr bars = Inl IndexError \<and> bars = [] \<or> (\<exists>a. calculate_atr bars = Inr a \<and> bars \<noteq> [])"
  by (cases bars) (simp_all add: calculate_atr_def iloc_from_end_def length_rolling
      length_true_range del: true_range.simps)

lemma crt_volume_ratio_Inr:
  "bars \<noteq> [] \<Longrightarrow> \<exists>v. crt_volume_ratio bars = Inr v"
  by (simp add: crt_volume_ratio_def Let_def iloc_from_end_def length_rolling)

lemma crt_empty: "data es = [] \<Longrightarrow> crt es = Inl IndexError"
  by (simp add: crt_def calculate_atr_empty)

lemma crt_no_candidate:
  assumes inv: "\<forall>b \<in> set (data es). low b \<le> close b \<and> close b \<le> high b"
    and ne: "data es \<noteq> []"
  shows "crt es = Inr None"
proof -
  let ?w = "tail 6 (data es)"
  have w: "?w \<noteq> []" using ne by (simp add: tail_eq_Nil)
  obtain a where a: "calculate_atr (data es) = Inr a"
    using calculate_atr_cases [of "data es"] ne by auto
  obtain v where v: "crt_volume_ratio (data es) = Inr v"
    using crt_volume_ratio_Inr [OF ne] by blast
  have l: "iloc_from_end 1 ?w = Inr (last ?w)" using w by (rule iloc_last)
  have mem: "last ?w \<in> set (data es)"
    using w set_tail [of 6 "data es"] last_in_set by blast
  have hi: "high (last ?w) \<le> Max (set (map high ?w))"
    using w by (intro Max_ge) auto
  have lo: "Min (set (map low ?w)) \<le> low (last ?w)"
    using w by (intro Min_le) auto
  from inv mem have c: "low (last ?w) \<le> close (last ?w)" "close (last ?w) \<le> high (last ?w)"
    by auto
  have mx: "pd_max (map high ?w) = Some (Max (set (map high ?w)))"
    using w by (intro pd_max_Some) simp
  have mn: "pd_min (map low ?w) = Some (Min (set (map low ?w)))"
    using w by (intro pd_min_Some) simp
  show ?thesis
    unfolding crt_def Let_def a v l mx mn
    using hi lo c by simp
qed

lemma add_entry_None: "add_entry name None entries = entries"
  by (simp add: add_entry_def)

lemma add_entry_keys: "fst ` set (add_entry name found entries) \<subseteq> insert name (fst ` set entries)"
  by (auto simp: add_entry_def split: option.splits)

lemma ramp_valid: "\<forall>b \<in> set (data (both (ramp_series 25))). low b \<le> close b \<and> close b \<le> high b"
  by code_simp

lemma ramp_entries: "generate_entries 2024 (both (ramp_series 25)) = Inr []"
  by code_simp

lemma ramp_nonempty: "data (both (ramp_series 25)) \<noteq> []"
  by code_simp

text \<open>
  Claim C2: on a series whose bars all have \<open>low \<le> close \<le> high\<close>, \<open>crt\<close> returns no
  candidate: the last close cannot exceed the maximum high of the 6-bar window, which
  contains the last bar's own high, and cannot be below the minimum low. It raises
  IndexError on the empty series and returns \<open>None\<close> otherwise, and whatever
  \<open>generate_entries\<close> returns has no \<open>crt\<close> key.
\<close>

theorem crt_never_fires:
  assumes "\<forall>b \<in> set (data es). low b \<le> close b \<and> close b \<le> high b"
  shows "crt es = (if data es = [] then Inl IndexError else Inr None)
       \<and> (\<forall>entries. generate_entries year es = Inr entries \<longrightarrow> ''crt'' \<notin> fst ` set entries)"
proof -
  have c: "crt es = (if data es = [] then Inl IndexError else Inr None)"
    using crt_empty [of es] crt_no_candidate [OF assms] by simp
  have "''crt'' \<notin> fst ` set entries" if g: "generate_entries year es = Inr entries" for entries
  proof -
    from g c have n: "crt es = Inr None"
      by (auto simp: generate_entries_def split: sum.splits if_splits)
    from g obtain ts mm where
      "entries = add_entry ''market_maker'' mm (add_entry ''crt'' None (add_entry ''turtle_soup'' ts []))"
      unfolding generate_entries_def n by (auto split: sum.splits)
    then have "fst ` set entries \<subseteq> {''market_maker'', ''turtle_soup''}"
      using add_entry_keys [of "''market_maker''" mm "add_entry ''turtle_soup'' ts []"]
        add_entry_keys [of "''turtle_soup''" ts "[]"]
      by (auto simp: add_entry_None)
    then show ?thesis by auto
  qed
  with c show ?thesis by blast
qed

theorem crt_never_fires_witness:
  "list_all (\<lambda>b. low b \<le> close b \<and> close b \<le> high b) (data (both (ramp_series 25)))
   \<and> crt (both (ramp_series 25)) = Inr None
   \<and> generate_entries 2024 (both (ramp_series 25)) = Inr []
   \<and> ''crt'' \<notin> fst ` set ([] :: (string \<times> candidate) list)"
  using crt_never_fires [OF ramp_valid, of 2024] ramp_valid ramp_entries ramp_nonempty
  by (simp add: list_all_iff)

lemma crt_price_range_closed:
  assumes "bars \<noteq> []"
  shows "crt_price_range bars =
     np_div (Some (Max (high ` set (tail 6 bars)) - Min (low ` set (tail 6 bars))))
            (Some (Min (low ` set (tail 6 bars))))"
proof -
  have w: "tail 6 bars \<noteq> []" using assms by (simp add: tail_eq_Nil)
  then have "pd_max (map high (tail 6 bars)) = Some (Max (high ` set (tail 6 bars)))"
    "pd_min (map low (tail 6 bars)) = Some (Min (low ` set (tail 6 bars)))"
    using pd_max_Some [of "map high (tail 6 bars)"] pd_min_Some [of "map low (tail 6 bars)"]
    by simp_all
  then show ?thesis by (simp add: crt_price_range_def Let_def)
qed

lemma quiet_fires:
  "crt (both (quiet_range 100.2)) =
     Inr (Some \<lparr> system = ''crt'', direction = ''long'', entry_price = 101,
                 stop_loss = Some 99.7, take_profit = 103.02, invalidation_point = 100.1,
                 timestamp = (2024, 1, 2, 19) \<rparr>)"
  by code_simp

lemma quiet_wide_range: "crt_price_range (data (both (quiet_range 100.51))) = Fin 0.0051"
  by code_simp

lemma flat_volume_ratio: "crt_volume_ratio (data (both (flat_series 25))) = Inr (Fin 1)"
  by code_simp

lemma quiet_wide_none: "crt (both (quiet_range 100.51)) = Inr None"
  by code_simp

lemma flat_none: "crt (both (flat_series 25)) = Inr None"
  by code_simp

text \<open>
  Claim C6: \<open>crt\<close> returns a candidate only when the relative price range of the last 6
  bars, (max high - min low) / min low, is at most 0.005 and the volume ratio is below
  0.5. A series whose range is 0.0051 yields no candidate, and so does every series that
  violates either threshold.
\<close>

theorem crt_thresholds:
  "(crt es = Inr (Some c) \<longrightarrow>
      crt_price_range (data es) =
        np_div (Some (Max (high ` set (tail 6 (data es))) - Min (low ` set (tail 6 (data es)))))
               (Some (Min (low ` set (tail 6 (data es)))))
    \<and> np_le (crt_price_range (data es)) 0.005
    \<and> (\<exists>vr. crt_volume_ratio (data es) = Inr vr \<and> np_lt vr 0.5))
   \<and> (crt_price_range (data es) = Fin 0.0051 \<longrightarrow> crt es \<noteq> Inr (Some c))
   \<and> (\<not> np_le (crt_price_range (data es)) 0.005 \<longrightarrow> crt es \<noteq> Inr (Some c))
   \<and> ((\<forall>vr. crt_volume_ratio (data es) = Inr vr \<longrightarrow> \<not> np_lt vr 0.5)
        \<longrightarrow> crt es \<noteq> Inr (Some c))"
proof -
  have fired: "np_le (crt_price_range (data es)) 0.005
      \<and> (\<exists>vr. crt_volume_ratio (data es) = Inr vr \<and> np_lt vr 0.5) \<and> data es \<noteq> []"
    if "crt es = Inr (Some c)"
  proof -
    from that crt_empty [of es] have ne: "data es \<noteq> []" by auto
    from that show ?thesis
      using ne by (auto simp: crt_def Let_def split: sum.splits if_splits)
  qed
  then show ?thesis
    using crt_price_range_closed [of "data es"] by auto
qed

theorem crt_thresholds_witness:
  "crt (both (quiet_range 100.2)) =
     Inr (Some \<lparr> system = ''crt'', direction = ''long'', entry_price = 101,
                 stop_loss = Some 99.7, take_profit = 103.02, invalidation_point = 100.1,
                 timestamp = (2024, 1, 2, 19) \<rparr>)
   \<and> np_le (crt_price_range (data (both (quiet_range 100.2)))) 0.005
   \<and> (\<exists>vr. crt_volume_ratio (data (both (quiet_range 100.2))) = Inr vr \<and> np_lt vr 0.5)
   \<and> crt_price_range (data (both (quiet_range 100.51))) = Fin 0.0051
   \<and> crt (both (quiet_range 100.51)) = Inr None
   \<and> crt_volume_ratio (data (both (flat_series 25))) = Inr (Fin 1)
   \<and> crt (both (flat_series 25)) = Inr None"
proof -
  let ?c1 = "\<lparr> system = ''crt'', direction = ''long'', entry_price = 101,
                 stop_loss = Some 99.7, take_profit = 103.02, invalidation_point = 100.1,
                 timestamp = (2024, 1, 2, 19) \<rparr>"
  have a: "np_le (crt_price_range (data (both (quiet_range 100.2)))) 0.005
      \<and> (\<exists>vr. crt_volume_ratio (data (both (quiet_range 100.2))) = Inr vr \<and> np_lt vr 0.5)"
    using crt_thresholds [of "both (quiet_range 100.2)" ?c1] quiet_fires by blast
  have v: "\<forall>vr. crt_volume_ratio (data (both (flat_series 25))) = Inr vr \<longrightarrow> \<not> np_lt vr 0.5"
    unfolding flat_volume_ratio by simp
  have b: "crt (both (quiet_range 100.51)) \<noteq> Inr (Some ?c1)"
    using crt_thresholds [of "both (quiet_range 100.51)" ?c1] quiet_wide_range by blast
  have c: "crt (both (flat_series 25)) \<noteq> Inr (Some ?c1)"
    using crt_thresholds [of "both (flat_series 25)" ?c1] v by blast
  from quiet_fires a quiet_wide_range quiet_wide_none flat_volume_ratio flat_none b c
  show ?thesis by blast
qed

lemma set_dropna: "set (dropna ys) = {y. Some y \<in> set ys}"
  by (induction ys) (auto simp: dropna_def split: option.splits)

lemma find_nearest_up:
  "find_nearest_liquidity_pool es p ''up'' =
     (let liq = find_liquidity_pools (ict_analysis es) 20 0.005;
          above = {l \<in> cl_price ` set (highs liq) \<union> set_option (premium (pd_levels liq)). p < l}
      in if above = {} then p * 1.02 else Min above)"
proof -
  let ?liq = "find_liquidity_pools (ict_analysis es) 20 0.005"
  let ?levels = "map (\<lambda>pool. Some (cl_price pool)) (highs ?liq) @ [premium (pd_levels ?liq)]"
  define xs where "xs = dropna (filter (\<lambda>level. nan_lt (Some p) level) ?levels)"
  have f: "find_nearest_liquidity_pool es p ''up''
      = (case pd_min xs of None \<Rightarrow> p * 1.02 | Some m \<Rightarrow> m)"
    by (simp only: find_nearest_liquidity_pool_def Let_def simp_thms if_True xs_def)
  have s: "set xs = {l \<in> cl_price ` set (highs ?liq) \<union> set_option (premium (pd_levels ?liq)). p < l}"
  proof -
    have "y \<in> set xs \<longleftrightarrow>
        y \<in> {l \<in> cl_price ` set (highs ?liq) \<union> set_option (premium (pd_levels ?liq)). p < l}" for y
      unfolding xs_def set_dropna
      by (cases "premium (pd_levels ?liq)") auto
    then show ?thesis by blast
  qed
  show ?thesis
  proof (cases "xs = []")
    case True
    then have "set xs = {}" by simp
    then show ?thesis
      unfolding f Let_def s [symmetric] using True by simp
  next
    case False
    then have "set xs \<noteq> {}" by simp
    then show ?thesis
      unfolding f Let_def s [symmetric] using pd_min_Some [OF False] by simp
  qed
qed

lemma min_lt_take:
  assumes "k \<le> length xs" "0 < k"
  shows "nan_lt (Some x) (pd_min (take k xs)) \<longleftrightarrow> (\<forall>j<k. x < xs ! j)"
proof -
  have ne: "take k xs \<noteq> []" using assms by auto
  have "set (take k xs) = (!) xs ` {0..<k}"
    using nth_image [OF assms(1)] by simp
  then have "(\<forall>y \<in> set (take k xs). x < y) \<longleftrightarrow> (\<forall>j<k. x < xs ! j)" by auto
  moreover have "x < Min (set (take k xs)) \<longleftrightarrow> (\<forall>y \<in> set (take k xs). x < y)"
    using ne by (intro Min_gr_iff) auto
  ultimately show ?thesis
    using pd_min_Some [OF ne] by simp
qed

lemma turtle_window:
  assumes "22 \<le> length bars"
  shows "length (tail 22 bars) = 22"
    and "iloc_from_end 3 (tail 22 bars) = Inr (tail 22 bars ! 19)"
    and "iloc_from_end 1 (tail 22 bars) = Inr (tail 22 bars ! 21)"
    and "tail 22 bars ! 21 = last bars"
    and "tail 22 bars ! 19 = bars ! (length bars - 3)"
    and "iloc_slice_from_end 23 3 (map f (tail 22 bars)) = take 19 (map f (tail 22 bars))"
    and "mean (map g (tail 22 bars)) = Some (sum_list (map g (tail 22 bars)) / 22)"
proof -
  show l: "length (tail 22 bars) = 22" using assms by (simp add: length_tail)
  then show "iloc_from_end 3 (tail 22 bars) = Inr (tail 22 bars ! 19)"
    and "iloc_from_end 1 (tail 22 bars) = Inr (tail 22 bars ! 21)"
    by (simp_all add: iloc_from_end_def)
  have ne: "bars \<noteq> []" using assms by auto
  show "tail 22 bars ! 21 = last bars"
    using assms ne by (simp add: tail_def last_conv_nth)
  show "tail 22 bars ! 19 = bars ! (length bars - 3)"
    using assms by (simp add: tail_def)
  show "iloc_slice_from_end 23 3 (map f (tail 22 bars)) = take 19 (map f (tail 22 bars))"
    using l by (simp add: iloc_slice_from_end_def)
  show "mean (map g (tail 22 bars)) = Some (sum_list (map g (tail 22 bars)) / 22)"
    using l by (auto simp: mean_def)
qed

lemma sweep_fires:
  "turtle_soup (both sweep_series) =
     Inr (Some \<lparr> system = ''turtle_soup'', direction = ''long'', entry_price = 100.5,
                 stop_loss = Some 91.475, take_profit = 101, invalidation_point = 95,
                 timestamp = (2024, 1, 2, 24) \<rparr>)"
  by code_simp

lemma sweep_length: "25 \<le> length (data (both sweep_series))"
  by code_simp

text \<open>
  Claim C4: for a series of at least 25 bars, let \<open>w\<close> be the window of the last 22 bars.
  If the low of \<open>w[-3]\<close> is strictly below the lows of the rows \<open>[-23, -3)\<close> of \<open>w\<close> (its
  first 19 rows), the last bar closes above its open, and the last volume exceeds twice
  the mean volume of \<open>w\<close>, then \<open>turtle_soup\<close> returns the long candidate with entry at
  the last close, stop at that low minus 1.5 ATR, invalidation at that low, and take
  profit at the nearest liquidity level above the entry (the least cluster high or
  premium level above it, or 1.02 times the entry when there is none). A long candidate
  is returned only under those three conditions.
\<close>

theorem turtle_soup_long:
  assumes "25 \<le> length (data es)"
  shows "let w = tail 22 (data es); b3 = w ! 19; b1 = w ! 21;
             bullish = ((\<forall>j<19. low b3 < low (w ! j)) \<and> open' b1 < close b1
                        \<and> 2 * (sum_list (map (\<lambda>b. real_of_int (volume b)) w) / 22)
                            < real_of_int (volume b1));
             liq = find_liquidity_pools (ict_analysis es) 20 0.005;
             above = {l \<in> cl_price ` set (highs liq) \<union> set_option (premium (pd_levels liq)).
                        close b1 < l};
             nearest = (if above = {} then close b1 * 1.02 else Min above)
         in b1 = last (data es) \<and> b3 = data es ! (length (data es) - 3)
          \<and> (bullish \<longrightarrow>
               (\<exists>atr. calculate_atr (data es) = Inr (Some atr)
                  \<and> turtle_soup es =
                      Inr (Some \<lparr> system = ''turtle_soup'', direction = ''long'',
                                  entry_price = close b1,
                                  stop_loss = Some (low b3 - 1.5 * atr),
                                  take_profit = nearest,
                                  invalidation_point = low b3,
                                  timestamp = index b1 \<rparr>)))
          \<and> (\<forall>c. turtle_soup es = Inr (Some c) \<and> direction c = ''long'' \<longrightarrow> bullish)"
proof -
  let ?w = "tail 22 (data es)"
  have n: "22 \<le> length (data es)" "20 \<le> length (data es)" using assms by simp_all
  note win = turtle_window [OF n(1)]
  obtain atr where atr: "calculate_atr (data es) = Inr (Some atr)"
    using calculate_atr_enough [OF n(2)] by blast
  have lows: "nan_lt (Some x) (pd_min (take 19 (map low ?w))) \<longleftrightarrow> (\<forall>j<19. x < low (?w ! j))" for x
    using min_lt_take [of 19 "map low ?w" x] win(1) by simp
  note tp = find_nearest_up [of es "close (?w ! 21)", unfolded Let_def, symmetric]
  show ?thesis
    unfolding Let_def tp turtle_soup_def atr win(2,3,6,7) lows
    using win(4,5) by (simp add: win(1))
qed

theorem turtle_soup_long_witness:
  "25 \<le> length (data (both sweep_series))
   \<and> list_all (\<lambda>j. low (tail 22 (data (both sweep_series)) ! 19)
                      < low (tail 22 (data (both sweep_series)) ! j)) [0..<19]
   \<and> open' (tail 22 (data (both sweep_series)) ! 21)
       < close (tail 22 (data (both sweep_series)) ! 21)
   \<and> 2 * (sum_list (map (\<lambda>b. real_of_int (volume b)) (tail 22 (data (both sweep_series)))) / 22)
       < real_of_int (volume (tail 22 (data (both sweep_series)) ! 21))
   \<and> turtle_soup (both sweep_series) =
     Inr (Some \<lparr> system = ''turtle_soup'', direction = ''long'', entry_price = 100.5,
                 stop_loss = Some 91.475, take_profit = 101, invalidation_point = 95,
                 timestamp = (2024, 1, 2, 24) \<rparr>)"
proof -
  let ?c1 = "\<lparr> system = ''turtle_soup'', direction = ''long'', entry_price = 100.5,
                 stop_loss = Some 91.475, take_profit = 101, invalidation_point = 95,
                 timestamp = (2024, 1, 2, 24) \<rparr>"
  have d: "direction ?c1 = ''long''" by simp
  note t = turtle_soup_long [OF sweep_length, unfolded Let_def]
  from t sweep_fires d have b: "(\<forall>j<19. low (tail 22 (data (both sweep_series)) ! 19)
                < low (tail 22 (data (both sweep_series)) ! j))
   \<and> open' (tail 22 (data (both sweep_series)) ! 21)
       < close (tail 22 (data (both sweep_series)) ! 21)
   \<and> 2 * (sum_list (map (\<lambda>b. real_of_int (volume b)) (tail 22 (data (both sweep_series)))) / 22)
       < real_of_int (volume (tail 22 (data (both sweep_series)) ! 21))"
    by blast
  then have "list_all (\<lambda>j. low (tail 22 (data (both sweep_series)) ! 19)
                      < low (tail 22 (data (both sweep_series)) ! j)) [0..<19]"
    unfolding list_all_iff by simp
  with b sweep_length sweep_fires show ?thesis by blast
qed

end
